theory Spec2Isabelle
  imports Main
begin

section \<open>Python text\<close>

text \<open>
  A Python \<open>str\<close> is modelled as a \<open>string\<close>: a list of code points, each below 256.
  The character classes below are the ones Python's \<open>re\<close> module uses for \<open>str\<close>
  patterns (Unicode classes), restricted to that range.
\<close>

definition backslash :: char where
  "backslash = CHR 0x5C"

definition quote :: char where
  "quote = CHR 0x27"

definition code :: "char \<Rightarrow> nat" where
  "code c = of_char c"

text \<open>\<open>\s\<close>: the characters for which \<open>str.isspace\<close> holds.\<close>

definition is_space :: "char \<Rightarrow> bool" where
  "is_space c =
     ((9 \<le> code c \<and> code c \<le> 13) \<or> (28 \<le> code c \<and> code c \<le> 32)
      \<or> code c = 133 \<or> code c = 160)"

definition is_digit :: "char \<Rightarrow> bool" where
  "is_digit c = (48 \<le> code c \<and> code c \<le> 57)"

definition is_octdigit :: "char \<Rightarrow> bool" where
  "is_octdigit c = (48 \<le> code c \<and> code c \<le> 55)"

definition is_ascii_letter :: "char \<Rightarrow> bool" where
  "is_ascii_letter c =
     ((65 \<le> code c \<and> code c \<le> 90) \<or> (97 \<le> code c \<and> code c \<le> 122))"

text \<open>\<open>\w\<close>: alphanumeric characters (alphabetic, decimal, digit or numeric) and the
  underscore.\<close>

definition is_word :: "char \<Rightarrow> bool" where
  "is_word c =
     (is_digit c \<or> is_ascii_letter c \<or> code c = 95
      \<or> code c = 170 \<or> code c = 178 \<or> code c = 179 \<or> code c = 181
      \<or> code c = 185 \<or> code c = 186 \<or> (188 \<le> code c \<and> code c \<le> 190)
      \<or> (192 \<le> code c \<and> code c \<le> 214) \<or> (216 \<le> code c \<and> code c \<le> 246)
      \<or> 248 \<le> code c)"

text \<open>The character class \<open>[\w\._]\<close> of the FROM pattern.\<close>

definition is_ident :: "char \<Rightarrow> bool" where
  "is_ident c = (is_word c \<or> c = CHR ''.'' \<or> c = CHR ''_'')"

text \<open>Case folding as \<open>re.IGNORECASE\<close> applies it to the letters of \<open>from\<close>: only
  the ASCII capitals fold onto them.\<close>

definition lower :: "char \<Rightarrow> char" where
  "lower c = (if 65 \<le> code c \<and> code c \<le> 90 then char_of (code c + 32) else c)"

definition digit_val :: "char \<Rightarrow> nat" where
  "digit_val c = code c - 48"

definition digit_char :: "nat \<Rightarrow> char" where
  "digit_char n = char_of (48 + n mod 10)"

text \<open>\<open>str(n)\<close> for an integer: decimal digits, a minus sign when negative.\<close>

function nat_str :: "nat \<Rightarrow> string" where
  "nat_str n = (if n < 10 then [digit_char n] else nat_str (n div 10) @ [digit_char n])"
  by pat_completeness auto
termination
  by (relation "measure id") auto

definition int_str :: "int \<Rightarrow> string" where
  "int_str i = (if i < 0 then CHR ''-'' # nat_str (nat (- i)) else nat_str (nat i))"

section \<open>The FROM pattern\<close>

text \<open>
  \<open>re.compile(r'from\s+([\w\._]+)\s', re.IGNORECASE)\<close>, matched at the start of a
  text. The result is the matched text, group 1 and the text after the match. The two
  repetitions are greedy, and the classes \<open>\s\<close> and \<open>[\w\._]\<close> are disjoint, so each
  repetition takes its whole run: giving characters back can never make the next
  element match.
\<close>

definition from_pattern_match :: "string \<Rightarrow> (string \<times> string \<times> string) option" where
  "from_pattern_match s =
     (let kw = take 4 s; r0 = drop 4 s;
          ws = takeWhile is_space r0; r1 = dropWhile is_space r0;
          g = takeWhile is_ident r1; r2 = dropWhile is_ident r1
      in case r2 of
           [] \<Rightarrow> None
         | c # rest \<Rightarrow>
             if map lower kw = ''from'' \<and> ws \<noteq> [] \<and> g \<noteq> [] \<and> is_space c
             then Some (kw @ ws @ g @ [c], g, rest) else None)"

section \<open>Replacement templates\<close>

datatype error =
    NameError string
  | TypeError
  | AttributeError
  | TemplateError
  | ExecutionError string
  | Raised string

text \<open>
  A compiled replacement template: literal characters and group references.
  \<open>TemplateError\<close> stands for the exception the template compiler raises
  (\<open>re.error\<close>, or \<open>IndexError\<close> for an unknown group name). \<open>Raised\<close> is any
  exception that a method of a value passed to the module raises, by the name of its
  class.
\<close>

datatype titem = Literal char | Group nat

definition items :: "titem list \<Rightarrow> error + titem list \<Rightarrow> error + titem list" where
  "items xs r = (case r of Inl e \<Rightarrow> Inl e | Inr ys \<Rightarrow> Inr (xs @ ys))"

text \<open>The pattern has one group.\<close>

definition pattern_groups :: nat where
  "pattern_groups = 1"

definition addgroup :: "nat \<Rightarrow> error + titem list \<Rightarrow> error + titem list" where
  "addgroup i r = (if i > pattern_groups then Inl TemplateError else items [Group i] r)"

fun octal_val :: "nat \<Rightarrow> string \<Rightarrow> nat" where
  "octal_val acc [] = acc"
| "octal_val acc (c # cs) = octal_val (8 * acc + digit_val c) cs"

text \<open>\<open>int(name)\<close> on a group name: surrounding blanks, a sign, digits with single
  underscores between them.\<close>

definition int_blank :: "char \<Rightarrow> bool" where
  "int_blank c = ((9 \<le> code c \<and> code c \<le> 13) \<or> code c = 32 \<or> code c = 133 \<or> code c = 160)"

fun digits_val :: "nat \<Rightarrow> string \<Rightarrow> nat option" where
  "digits_val acc [] = None"
| "digits_val acc [c] = (if is_digit c then Some (10 * acc + digit_val c) else None)"
| "digits_val acc (c # d # cs) =
     (if \<not> is_digit c then None
      else if d = CHR ''_'' then digits_val (10 * acc + digit_val c) cs
      else digits_val (10 * acc + digit_val c) (d # cs))"

definition py_int :: "string \<Rightarrow> int option" where
  "py_int s =
     (case rev (dropWhile int_blank (rev (dropWhile int_blank s))) of
        [] \<Rightarrow> None
      | c # cs \<Rightarrow>
          if c = CHR ''-'' then map_option (\<lambda>n. - int n) (digits_val 0 cs)
          else if c = CHR ''+'' then map_option int (digits_val 0 cs)
          else map_option int (digits_val 0 (c # cs)))"

definition escape_char :: "char \<Rightarrow> char option" where
  "escape_char c =
     (if c = CHR ''a'' then Some (CHR 0x07)
      else if c = CHR ''b'' then Some (CHR 0x08)
      else if c = CHR ''f'' then Some (CHR 0x0C)
      else if c = CHR ''n'' then Some (CHR 0x0A)
      else if c = CHR ''r'' then Some (CHR 0x0D)
      else if c = CHR ''t'' then Some (CHR 0x09)
      else if c = CHR ''v'' then Some (CHR 0x0B)
      else if c = backslash then Some backslash
      else None)"

text \<open>
  \<open>parse_template\<close> of the \<open>re\<close> module, for a pattern with one unnamed group: the
  escapes \<open>\g<n>\<close>, \<open>\0\<close> and octal escapes, \<open>\1\<close> ... \<open>\99\<close>, the control escapes,
  and the rejection of an unknown escape of an ASCII letter. The number in \<open>\g<n>\<close> is
  read with \<open>int\<close>, as the Python versions the package names (3.8 and 3.9) do. A
  template without a backslash is literal text in every version.
\<close>

function parse_template :: "string \<Rightarrow> error + titem list" where
  "parse_template [] = Inr []"
| "parse_template [c] = (if c = backslash then Inl TemplateError else Inr [Literal c])"
| "parse_template (c # e # rest) =
     (if c \<noteq> backslash then items [Literal c] (parse_template (e # rest))
      else if e = CHR ''g'' then
        (case rest of
           [] \<Rightarrow> Inl TemplateError
         | l # body \<Rightarrow>
             let name = takeWhile (\<lambda>x. x \<noteq> CHR ''>'') body;
                 after = dropWhile (\<lambda>x. x \<noteq> CHR ''>'') body
             in if l \<noteq> CHR ''<'' \<or> after = [] \<or> name = [] then Inl TemplateError
                else (case py_int name of
                        None \<Rightarrow> Inl TemplateError
                      | Some i \<Rightarrow>
                          if i < 0 then Inl TemplateError
                          else addgroup (nat i) (parse_template (tl after))))
      else if e = CHR ''0'' then
        (let ds = takeWhile is_octdigit (take 2 rest)
         in items [Literal (char_of (octal_val 0 ds mod 256))]
              (parse_template (drop (length ds) rest)))
      else if is_digit e then
        (case rest of
           [] \<Rightarrow> addgroup (digit_val e) (parse_template [])
         | d # r \<Rightarrow>
             if \<not> is_digit d then addgroup (digit_val e) (parse_template (d # r))
             else (case r of
                     [] \<Rightarrow> addgroup (10 * digit_val e + digit_val d) (parse_template [])
                   | o3 # r' \<Rightarrow>
                       if is_octdigit e \<and> is_octdigit d \<and> is_octdigit o3 then
                         (if octal_val 0 [e, d, o3] > 255 then Inl TemplateError
                          else items [Literal (char_of (octal_val 0 [e, d, o3]))]
                                 (parse_template r'))
                       else addgroup (10 * digit_val e + digit_val d)
                              (parse_template (o3 # r'))))
      else (case escape_char e of
              Some x \<Rightarrow> items [Literal x] (parse_template rest)
            | None \<Rightarrow>
                if is_ascii_letter e then Inl TemplateError
                else items [Literal c, Literal e] (parse_template rest)))"
  by pat_completeness auto
termination
proof (relation "measure length")
  fix c e :: char and rest :: string and l :: char and body name after :: string
  assume "after = dropWhile (\<lambda>x. x \<noteq> CHR ''>'') body" "rest = l # body"
  then show "(tl after, c # e # rest) \<in> measure length"
    using length_dropWhile_le [of "\<lambda>x. x \<noteq> CHR ''>''" body] by simp
qed auto

text \<open>Expanding a template at a match: group 0 is the matched text, group 1 the
  identifier.\<close>

fun expand_template :: "titem list \<Rightarrow> string \<Rightarrow> string \<Rightarrow> string" where
  "expand_template [] m g = []"
| "expand_template (Literal c # ts) m g = c # expand_template ts m g"
| "expand_template (Group i # ts) m g = (if i = 0 then m else g) @ expand_template ts m g"

lemma from_pattern_match_shorter:
  "from_pattern_match s = Some (m, g, rest) \<Longrightarrow> length rest < length s"
proof -
  assume a: "from_pattern_match s = Some (m, g, rest)"
  have "length (dropWhile is_ident (dropWhile is_space (drop 4 s))) \<le> length s"
    using length_dropWhile_le [of is_ident "dropWhile is_space (drop 4 s)"]
          length_dropWhile_le [of is_space "drop 4 s"] by simp
  with a show ?thesis
    by (auto simp: from_pattern_match_def Let_def split: list.splits if_splits)
qed

text \<open>
  \<open>from_pattern.sub(template, query)\<close>: the text is scanned from the left; at each
  position the pattern is tried; a match is replaced by the expanded template and the
  scan resumes after it; otherwise the character is copied.
\<close>

function from_pattern_sub :: "titem list \<Rightarrow> string \<Rightarrow> string" where
  "from_pattern_sub tpl [] = []"
| "from_pattern_sub tpl (c # cs) =
     (case from_pattern_match (c # cs) of
        Some (m, g, rest) \<Rightarrow> expand_template tpl m g @ from_pattern_sub tpl rest
      | None \<Rightarrow> c # from_pattern_sub tpl cs)"
  by pat_completeness auto
termination
  by (relation "measure (\<lambda>(tpl, s). length s)")
     (auto dest: from_pattern_match_shorter)

section \<open>The clause injector\<close>

text \<open>The replacement text \<open>f'from \\1 {time_travel_clause} '\<close>.\<close>

definition replacement :: "string \<Rightarrow> string" where
  "replacement time_travel_clause =
     ''from '' @ [backslash] @ ''1 '' @ time_travel_clause @ '' ''"

definition modify_from_clause_for_timetravel :: "string \<Rightarrow> string \<Rightarrow> error + string" where
  "modify_from_clause_for_timetravel query time_travel_clause =
     (case parse_template (replacement time_travel_clause) of
        Inl e \<Rightarrow> Inl e
      | Inr tpl \<Rightarrow> Inr (from_pattern_sub tpl query))"

section \<open>Values\<close>

text \<open>
  A \<open>datetime.datetime\<close>: its fields, and the UTC offset in minutes of an aware value
  (\<open>None\<close> for a naive one).
\<close>

record datetime =
  year :: nat
  month :: nat
  day :: nat
  hour :: nat
  minute :: nat
  second :: nat
  microsecond :: nat
  utcoffset :: "int option"

text \<open>
  The Python values the module handles: \<open>None\<close>, and values of the classes \<open>bool\<close>,
  \<open>int\<close>, \<open>str\<close> and \<open>datetime\<close>. \<open>PyObject\<close> is an object of any class that is
  none of these nor derived from them, given by what the module can observe of it: what
  \<open>format(value, '')\<close> does (it gives a text, or its \<open>__format__\<close> raises), the names of its
  attributes and its truth value.
\<close>

datatype pyval =
    PyNone
  | PyBool bool
  | PyInt int
  | PyStr string
  | PyDatetime datetime
  | PyObject "error + string" "string list" bool

definition zero_pad :: "nat \<Rightarrow> string \<Rightarrow> string" where
  "zero_pad w s = replicate (w - length s) (CHR ''0'') @ s"

text \<open>
  \<open>timestamp.strftime("%Y-%m-%d %H:%M:%S")\<close>. The directives are handed to the C
  library. \<open>%m\<close>, \<open>%d\<close>, \<open>%H\<close>, \<open>%M\<close> and \<open>%S\<close> are two digits everywhere; \<open>%Y\<close> of a
  year below 1000 is printed with leading zeros by some C libraries and without by others
  (glibc prints the year 99 as \<open>99\<close>), so \<open>pads_year\<close> says which the platform does.
\<close>

definition strftime :: "bool \<Rightarrow> datetime \<Rightarrow> string" where
  "strftime pads_year d =
     (if pads_year then zero_pad 4 (nat_str (year d)) else nat_str (year d))
     @ ''-'' @ zero_pad 2 (nat_str (month d))
     @ ''-'' @ zero_pad 2 (nat_str (day d))
     @ '' '' @ zero_pad 2 (nat_str (hour d))
     @ '':'' @ zero_pad 2 (nat_str (minute d))
     @ '':'' @ zero_pad 2 (nat_str (second d))"

text \<open>\<open>str\<close> of a datetime: \<open>isoformat\<close> with a blank as separator.\<close>

definition offset_str :: "int \<Rightarrow> string" where
  "offset_str m =
     (if m < 0 then ''-'' else ''+'')
     @ zero_pad 2 (nat_str (nat \<bar>m\<bar> div 60)) @ '':'' @ zero_pad 2 (nat_str (nat \<bar>m\<bar> mod 60))"

definition datetime_str :: "datetime \<Rightarrow> string" where
  "datetime_str d =
     zero_pad 4 (nat_str (year d))
     @ ''-'' @ zero_pad 2 (nat_str (month d))
     @ ''-'' @ zero_pad 2 (nat_str (day d))
     @ '' '' @ zero_pad 2 (nat_str (hour d))
     @ '':'' @ zero_pad 2 (nat_str (minute d))
     @ '':'' @ zero_pad 2 (nat_str (second d))
     @ (if microsecond d = 0 then [] else ''.'' @ zero_pad 6 (nat_str (microsecond d)))
     @ (case utcoffset d of None \<Rightarrow> [] | Some m \<Rightarrow> offset_str m)"

text \<open>
  What an f-string does for \<open>{value}\<close>: it calls \<open>format(value, '')\<close>. For the built-in
  classes that is the text of \<open>str(value)\<close>; for another object it is whatever its
  \<open>__format__\<close> does.
\<close>

fun format_value :: "pyval \<Rightarrow> error + string" where
  "format_value PyNone = Inr ''None''"
| "format_value (PyBool b) = Inr (if b then ''True'' else ''False'')"
| "format_value (PyInt i) = Inr (int_str i)"
| "format_value (PyStr s) = Inr s"
| "format_value (PyDatetime d) = Inr (datetime_str d)"
| "format_value (PyObject formatted attrs truth) = formatted"

text \<open>\<open>isinstance(v, int)\<close> (a \<open>bool\<close> is an \<open>int\<close>) and
  \<open>isinstance(v, datetime.datetime)\<close>.\<close>

fun isinstance_int :: "pyval \<Rightarrow> bool" where
  "isinstance_int (PyInt i) = True"
| "isinstance_int (PyBool b) = True"
| "isinstance_int v = False"

fun isinstance_datetime :: "pyval \<Rightarrow> bool" where
  "isinstance_datetime (PyDatetime d) = True"
| "isinstance_datetime v = False"

fun hasattr :: "pyval \<Rightarrow> string \<Rightarrow> bool" where
  "hasattr (PyObject formatted attrs truth) name = (name \<in> set attrs)"
| "hasattr v name = False"

fun truthy :: "pyval \<Rightarrow> bool" where
  "truthy PyNone = False"
| "truthy (PyBool b) = b"
| "truthy (PyInt i) = (i \<noteq> 0)"
| "truthy (PyStr s) = (s \<noteq> [])"
| "truthy (PyDatetime d) = True"
| "truthy (PyObject formatted attrs truth) = truth"

definition empty_dict :: pyval where
  "empty_dict = PyObject (Inr ''{}'') [] False"

section \<open>The qualifier builder\<close>

text \<open>
  The clause \<open>query_at_time\<close> builds from its timestamp (the \<open>if\<close>, \<open>elif\<close>, \<open>else\<close>
  on the kind of the timestamp). The first and the last branch format the timestamp in an
  f-string.
\<close>

definition time_travel_clause :: "bool \<Rightarrow> pyval \<Rightarrow> error + string" where
  "time_travel_clause pads_year timestamp =
     (if isinstance_int timestamp then
        (case format_value timestamp of
           Inl e \<Rightarrow> Inl e
         | Inr text \<Rightarrow>
             Inr (''AT (TIMESTAMP => DATEADD(DAY, -'' @ text @ '', CURRENT_TIMESTAMP()))''))
      else (case timestamp of
              PyDatetime d \<Rightarrow>
                Inr (''AT (TIMESTAMP => '' @ [quote] @ strftime pads_year d @ [quote] @ '')'')
            | _ \<Rightarrow>
                (case format_value timestamp of
                   Inl e \<Rightarrow> Inl e
                 | Inr text \<Rightarrow>
                     Inr (''AT (TIMESTAMP => '' @ [quote] @ text @ [quote] @ '')''))))"

text \<open>The clause \<open>query_at_offset\<close> builds from \<open>days_ago\<close>, in an f-string too.\<close>

definition offset_clause :: "pyval \<Rightarrow> error + string" where
  "offset_clause days_ago =
     (case format_value days_ago of
        Inl e \<Rightarrow> Inl e
      | Inr text \<Rightarrow>
          Inr (''AT (TIMESTAMP => DATEADD(DAY, -'' @ text @ '', CURRENT_TIMESTAMP()))''))"

section \<open>Names and the executor\<close>

text \<open>
  The names the module binds at its top level (its imports and functions, and the names
  every module has), and the built-in names. A name that a function reads and that is
  neither its parameter nor assigned in it is looked up here; a name found in neither
  raises \<open>NameError\<close>.
\<close>

definition module_globals :: "string list" where
  "module_globals =
     [''__name__'', ''__doc__'', ''__package__'', ''__loader__'', ''__spec__'', ''__file__'',
      ''__cached__'', ''__builtins__'',
      ''pd'', ''Optional'', ''Union'', ''Dict'', ''Any'', ''List'', ''Tuple'', ''datetime'',
      ''re'', ''modify_from_clause_for_timetravel'', ''typing'', ''hextoolkit'', ''sql_cell'',
      ''execute_query'', ''query_at_time'', ''query_at_offset'', ''compare_timetravel'',
      ''visualize_comparison'']"

definition builtin_names :: "string list" where
  "builtin_names =
     [''ArithmeticError'', ''AssertionError'', ''AttributeError'', ''BaseException'',
      ''BaseExceptionGroup'', ''BlockingIOError'', ''BrokenPipeError'', ''BufferError'',
      ''BytesWarning'', ''ChildProcessError'', ''ConnectionAbortedError'', ''ConnectionError'',
      ''ConnectionRefusedError'', ''ConnectionResetError'', ''DeprecationWarning'', ''EOFError'',
      ''Ellipsis'', ''EncodingWarning'', ''EnvironmentError'', ''Exception'', ''ExceptionGroup'',
      ''False'', ''FileExistsError'', ''FileNotFoundError'', ''FloatingPointError'',
      ''FutureWarning'', ''GeneratorExit'', ''IOError'', ''ImportError'', ''ImportWarning'',
      ''IndentationError'', ''IndexError'', ''InterruptedError'', ''IsADirectoryError'',
      ''KeyError'', ''KeyboardInterrupt'', ''LookupError'', ''MemoryError'',
      ''ModuleNotFoundError'', ''NameError'', ''None'', ''NotADirectoryError'',
      ''NotImplemented'', ''NotImplementedError'', ''OSError'', ''OverflowError'',
      ''PendingDeprecationWarning'', ''PermissionError'', ''ProcessLookupError'',
      ''RecursionError'', ''ReferenceError'', ''ResourceWarning'', ''RuntimeError'',
      ''RuntimeWarning'', ''StopAsyncIteration'', ''StopIteration'', ''SyntaxError'',
      ''SyntaxWarning'', ''SystemError'', ''SystemExit'', ''TabError'', ''TimeoutError'',
      ''True'', ''TypeError'', ''UnboundLocalError'', ''UnicodeDecodeError'',
      ''UnicodeEncodeError'', ''UnicodeError'', ''UnicodeTranslateError'', ''UnicodeWarning'',
      ''UserWarning'', ''ValueError'', ''Warning'', ''ZeroDivisionError'', ''__build_class__'',
      ''__debug__'', ''__doc__'', ''__import__'', ''__loader__'', ''__name__'', ''__package__'',
      ''__spec__'', ''abs'', ''aiter'', ''all'', ''anext'', ''any'', ''ascii'', ''bin'', ''bool'',
      ''breakpoint'', ''bytearray'', ''bytes'', ''callable'', ''chr'', ''classmethod'',
      ''compile'', ''complex'', ''copyright'', ''credits'', ''delattr'', ''dict'', ''dir'',
      ''divmod'', ''enumerate'', ''eval'', ''exec'', ''exit'', ''filter'', ''float'', ''format'',
      ''frozenset'', ''getattr'', ''globals'', ''hasattr'', ''hash'', ''help'', ''hex'', ''id'',
      ''input'', ''int'', ''isinstance'', ''issubclass'', ''iter'', ''len'', ''license'',
      ''list'', ''locals'', ''map'', ''max'', ''memoryview'', ''min'', ''next'', ''object'',
      ''oct'', ''open'', ''ord'', ''pow'', ''print'', ''property'', ''quit'', ''range'',
      ''repr'', ''reversed'', ''round'', ''set'', ''setattr'', ''slice'', ''sorted'',
      ''staticmethod'', ''str'', ''sum'', ''super'', ''tuple'', ''type'', ''vars'', ''zip'']"

definition load_global :: "string \<Rightarrow> error + pyval" where
  "load_global name =
     (if name \<in> set module_globals \<or> name \<in> set builtin_names
      then Inr (PyObject (Inr name) [] True) else Inl (NameError name))"

text \<open>
  The executor is the remote engine behind the connection: it takes the query and the
  parameters and gives a result table or fails. The state threaded through the
  functions is the list of dispatches made so far.
\<close>

type_synonym trace = "(pyval \<times> pyval) list"

type_synonym 'r executor = "pyval \<Rightarrow> pyval \<Rightarrow> error + 'r"

definition dispatch :: "'r executor \<Rightarrow> pyval \<Rightarrow> pyval \<Rightarrow> trace \<Rightarrow> (error + 'r) \<times> trace" where
  "dispatch ex query params tr = (ex query params, tr @ [(query, params)])"

section \<open>The orchestration\<close>

text \<open>
  \<open>execute_query(query, data_connection_name, cast_decimals)\<close>. The body reads
  \<open>connection\<close> and \<open>params\<close>, which are not among its parameters.
\<close>

definition execute_query ::
  "'r executor \<Rightarrow> pyval \<Rightarrow> pyval \<Rightarrow> pyval \<Rightarrow> trace \<Rightarrow> (error + 'r) \<times> trace" where
  "execute_query ex query data_connection_name cast_decimals tr =
     (case load_global ''connection'' of
        Inl e \<Rightarrow> (Inl e, tr)
      | Inr connection \<Rightarrow>
          if hasattr connection ''execute'' then
            (case load_global ''params'' of
               Inl e \<Rightarrow> (Inl e, tr)
             | Inr params \<Rightarrow> dispatch ex query params tr)
          else if hasattr connection ''cursor'' then
            (case load_global ''params'' of
               Inl e \<Rightarrow> (Inl e, tr)
             | Inr params \<Rightarrow>
                 dispatch ex query (if truthy params then params else empty_dict) tr)
          else (Inl AttributeError, tr))"

text \<open>
  The call \<open>modify_from_clause_for_timetravel(query, time_travel_clause)\<close> with a query
  of any type: \<open>sub\<close> compiles the template first and then rejects a subject that is
  not text.
\<close>

definition modify_value :: "pyval \<Rightarrow> string \<Rightarrow> error + string" where
  "modify_value query clause =
     (case query of
        PyStr q \<Rightarrow> modify_from_clause_for_timetravel q clause
      | _ \<Rightarrow>
          (case parse_template (replacement clause) of
             Inl e \<Rightarrow> Inl e
           | Inr tpl \<Rightarrow> Inl TypeError))"

text \<open>
  \<open>query_at_time(query, timestamp, db_name, data_connection_name, params,
  cast_decimals)\<close>, ending in \<open>execute_query(connection, time_travel_query, params)\<close>.
\<close>

definition query_at_time ::
  "bool \<Rightarrow> 'r executor \<Rightarrow> pyval \<Rightarrow> pyval \<Rightarrow> pyval \<Rightarrow> pyval \<Rightarrow> pyval \<Rightarrow> pyval \<Rightarrow> trace
     \<Rightarrow> (error + 'r) \<times> trace" where
  "query_at_time pads_year ex query timestamp db_name data_connection_name params cast_decimals tr =
     (case time_travel_clause pads_year timestamp of
        Inl e \<Rightarrow> (Inl e, tr)
      | Inr clause \<Rightarrow>
          (case modify_value query clause of
             Inl e \<Rightarrow> (Inl e, tr)
           | Inr time_travel_query \<Rightarrow>
               (case load_global ''connection'' of
                  Inl e \<Rightarrow> (Inl e, tr)
                | Inr connection \<Rightarrow>
                    execute_query ex connection (PyStr time_travel_query) params tr)))"

text \<open>
  \<open>query_at_offset(query, days_ago, db_name, data_connection_name, params,
  cast_decimals)\<close>, ending in \<open>execute_query(connection, time_travel_query, params)\<close>.
\<close>

definition query_at_offset ::
  "'r executor \<Rightarrow> pyval \<Rightarrow> pyval \<Rightarrow> pyval \<Rightarrow> pyval \<Rightarrow> pyval \<Rightarrow> pyval \<Rightarrow> trace
     \<Rightarrow> (error + 'r) \<times> trace" where
  "query_at_offset ex query days_ago db_name data_connection_name params cast_decimals tr =
     (case offset_clause days_ago of
        Inl e \<Rightarrow> (Inl e, tr)
      | Inr clause \<Rightarrow>
          (case modify_value query clause of
             Inl e \<Rightarrow> (Inl e, tr)
           | Inr time_travel_query \<Rightarrow>
               (case load_global ''connection'' of
                  Inl e \<Rightarrow> (Inl e, tr)
                | Inr connection \<Rightarrow>
                    execute_query ex connection (PyStr time_travel_query) params tr)))"

text \<open>
  \<open>compare_timetravel(query, days_ago, db_name, data_connection_name, params,
  cast_decimals)\<close>: first \<open>query_at_offset(connection, query, days_ago, params)\<close>, whose
  two last parameters take their defaults, then
  \<open>execute_query(connection, query, params)\<close>, then the pair, current data first.
\<close>

definition compare_timetravel ::
  "'r executor \<Rightarrow> pyval \<Rightarrow> pyval \<Rightarrow> pyval \<Rightarrow> pyval \<Rightarrow> pyval \<Rightarrow> pyval \<Rightarrow> trace
     \<Rightarrow> (error + 'r \<times> 'r) \<times> trace" where
  "compare_timetravel ex query days_ago db_name data_connection_name params cast_decimals tr =
     (case load_global ''connection'' of
        Inl e \<Rightarrow> (Inl e, tr)
      | Inr connection \<Rightarrow>
          (case query_at_offset ex connection query days_ago params PyNone (PyBool True) tr of
             (Inl e, tr1) \<Rightarrow> (Inl e, tr1)
           | (Inr historical_data, tr1) \<Rightarrow>
               (case load_global ''connection'' of
                  Inl e \<Rightarrow> (Inl e, tr1)
                | Inr connection2 \<Rightarrow>
                    (case execute_query ex connection2 query params tr1 of
                       (Inl e, tr2) \<Rightarrow> (Inl e, tr2)
                     | (Inr current_data, tr2) \<Rightarrow>
                         (Inr (current_data, historical_data), tr2)))))"

section \<open>Date values and the timestamp format\<close>





section \<open>Integer literals of the engine\<close>

text \<open>
  The integer that a signed integer literal of SQL denotes: decimal digits, after one
  minus sign or none. Any other text, such as \<open>--3\<close> (in SQL two dashes open a comment),
  is not such a literal.
\<close>

definition decimal :: "string \<Rightarrow> nat" where
  "decimal s = foldl (\<lambda>a c. 10 * a + digit_val c) 0 s"

definition sql_integer :: "string \<Rightarrow> int option" where
  "sql_integer s =
     (case s of
        [] \<Rightarrow> None
      | c # cs \<Rightarrow>
          if c = CHR ''-'' then
            (if cs \<noteq> [] \<and> list_all is_digit cs then Some (- int (decimal cs)) else None)
          else if list_all is_digit (c # cs) then Some (int (decimal (c # cs)))
          else None)"

section \<open>Matches and the expected rewriting\<close>

text \<open>
  \<open>from_pattern.finditer(query)\<close>: the matches the scan of \<open>sub\<close> finds, each with
  its start, its end and its group 1, the positions counted from \<open>pos\<close>.
\<close>

function from_pattern_finditer :: "nat \<Rightarrow> string \<Rightarrow> (nat \<times> nat \<times> string) list" where
  "from_pattern_finditer pos [] = []"
| "from_pattern_finditer pos (c # cs) =
     (case from_pattern_match (c # cs) of
        Some (m, g, rest) \<Rightarrow>
          (pos, pos + length m, g) # from_pattern_finditer (pos + length m) rest
      | None \<Rightarrow> from_pattern_finditer (Suc pos) cs)"
  by pat_completeness auto
termination
  by (relation "measure (\<lambda>(pos, s). length s)")
     (auto dest: from_pattern_match_shorter)

text \<open>
  What a match with identifier \<open>g\<close> becomes when the qualifier is plain text: the
  keyword in lower case, the identifier, the qualifier, one blank between them and one
  after.
\<close>

definition from_clause :: "string \<Rightarrow> string \<Rightarrow> string" where
  "from_clause g clause = ''from '' @ g @ '' '' @ clause @ '' ''"

text \<open>
  The expected result, written from the matches: the text of \<open>s\<close> (which starts at
  position \<open>pos\<close> of the query) with every match replaced by its qualified clause and
  everything between the matches kept.
\<close>

fun splice :: "string \<Rightarrow> nat \<Rightarrow> string \<Rightarrow> (nat \<times> nat \<times> string) list \<Rightarrow> string" where
  "splice clause pos s [] = s"
| "splice clause pos s ((i, j, g) # ms) =
     take (i - pos) s @ from_clause g clause @ splice clause j (drop (j - pos) s) ms"

section \<open>Lemmas\<close>

lemma items_Inr [simp]: "items xs (Inr ys) = Inr (xs @ ys)"
  by (simp add: items_def)

lemma parse_template_plain:
  "c \<noteq> backslash \<Longrightarrow> parse_template (c # cs) = items [Literal c] (parse_template cs)"
  by (cases cs) simp_all

lemma parse_template_literal_prefix:
  "backslash \<notin> set xs \<Longrightarrow> parse_template (xs @ ys) = items (map Literal xs) (parse_template ys)"
proof (induction xs)
  case Nil
  show ?case by (cases "parse_template ys") (simp_all add: items_def)
next
  case (Cons x xs)
  then have x: "x \<noteq> backslash" and ih: "parse_template (xs @ ys) = items (map Literal xs) (parse_template ys)"
    by auto
  have "parse_template ((x # xs) @ ys) = items [Literal x] (parse_template (xs @ ys))"
    using parse_template_plain [OF x, of "xs @ ys"] by simp
  then show ?case
    by (simp add: ih items_def split: sum.splits)
qed

lemma parse_template_group1:
  assumes "\<not> is_digit d"
  shows "parse_template (backslash # CHR ''1'' # d # r) = addgroup 1 (parse_template (d # r))"
proof -
  have a: "CHR ''1'' \<noteq> CHR ''g''" "CHR ''1'' \<noteq> CHR ''0''" by simp_all
  have b: "is_digit (CHR ''1'')" "digit_val (CHR ''1'') = 1"
    by (simp_all add: is_digit_def digit_val_def code_def)
  show ?thesis
    by (simp only: parse_template.simps(3) a b assms if_True if_False simp_thms list.case)
qed

lemma parse_template_replacement:
  assumes "backslash \<notin> set clause"
  shows "parse_template (replacement clause) =
           Inr (map Literal ''from '' @ [Group 1] @ map Literal ('' '' @ clause @ '' ''))"
proof -
  have nb: "backslash \<notin> set ('' '' @ clause @ '' '')"
    using assms by (simp add: backslash_def)
  have tail: "parse_template ('' '' @ clause @ '' '') = Inr (map Literal ('' '' @ clause @ '' ''))"
    using parse_template_literal_prefix [OF nb, of "[]"] by simp
  have "\<not> is_digit (CHR '' '')"
    by (simp add: is_digit_def code_def)
  then have "parse_template (backslash # CHR ''1'' # CHR '' '' # clause @ '' '') =
               addgroup 1 (parse_template (CHR '' '' # clause @ '' ''))"
    by (rule parse_template_group1)
  then have esc: "parse_template (backslash # CHR ''1'' # '' '' @ clause @ '' '') =
               Inr (Group 1 # map Literal ('' '' @ clause @ '' ''))"
    using tail by (simp add: addgroup_def pattern_groups_def)
  have "backslash \<notin> set ''from ''"
    by (simp add: backslash_def)
  then have "parse_template (''from '' @ (backslash # CHR ''1'' # '' '' @ clause @ '' '')) =
          items (map Literal ''from '') (parse_template (backslash # CHR ''1'' # '' '' @ clause @ '' ''))"
    by (rule parse_template_literal_prefix)
  then show ?thesis
    unfolding esc by (simp add: replacement_def)
qed

lemma expand_template_literals:
  "expand_template (map Literal xs @ ts) m g = xs @ expand_template ts m g"
  by (induction xs) simp_all

lemma expand_replacement:
  "expand_template (map Literal ''from '' @ [Group 1] @ map Literal ('' '' @ clause @ '' '')) m g =
     from_clause g clause"
proof -
  have a: "expand_template (map Literal ('' '' @ clause @ '' '')) m g = '' '' @ clause @ '' ''"
    using expand_template_literals [of "'' '' @ clause @ '' ''" "[]" m g] by simp
  have "expand_template (map Literal ''from '' @ ([Group 1] @ map Literal ('' '' @ clause @ '' ''))) m g =
          ''from '' @ expand_template ([Group 1] @ map Literal ('' '' @ clause @ '' '')) m g"
    by (rule expand_template_literals)
  also have "expand_template ([Group 1] @ map Literal ('' '' @ clause @ '' '')) m g =
          g @ '' '' @ clause @ '' ''"
    using a by simp
  finally show ?thesis
    by (simp add: from_clause_def)
qed

lemma from_pattern_match_parts:
  assumes "from_pattern_match s = Some (m, g, rest)"
  shows "s = m @ rest"
    and "\<exists>kw ws c. m = kw @ ws @ g @ [c] \<and> map lower kw = ''from'' \<and> ws \<noteq> [] \<and>
           list_all is_space ws \<and> g \<noteq> [] \<and> list_all is_ident g \<and> is_space c"
proof -
  define kw where "kw = take 4 s"
  define r0 where "r0 = drop 4 s"
  define ws where "ws = takeWhile is_space r0"
  define r1 where "r1 = dropWhile is_space r0"
  define g' where "g' = takeWhile is_ident r1"
  define r2 where "r2 = dropWhile is_ident r1"
  define ok where "ok c \<longleftrightarrow> map lower kw = ''from'' \<and> ws \<noteq> [] \<and> g' \<noteq> [] \<and> is_space c" for c
  have unf: "from_pattern_match s =
    (case r2 of [] \<Rightarrow> None
     | c # rest \<Rightarrow> if ok c then Some (kw @ ws @ g' @ [c], g', rest) else None)"
    by (simp only: from_pattern_match_def Let_def kw_def r0_def ws_def r1_def g'_def r2_def ok_def)
  obtain c where r2: "r2 = c # rest" and okc: "ok c" and g: "g = g'" and m: "m = kw @ ws @ g' @ [c]"
  proof (cases r2)
    case Nil
    with assms unf show ?thesis by simp
  next
    case (Cons c rest')
    with assms unf have "(if ok c then Some (kw @ ws @ g' @ [c], g', rest') else None) = Some (m, g, rest)"
      by simp
    then have "ok c" "m = kw @ ws @ g' @ [c]" "g = g'" "rest = rest'"
      by (auto split: if_splits)
    with Cons that show ?thesis by simp
  qed
  have "s = kw @ r0" by (simp add: kw_def r0_def)
  also have "r0 = ws @ r1" by (simp add: ws_def r1_def)
  also have "r1 = g' @ r2" by (simp add: g'_def r2_def)
  finally show "s = m @ rest" using r2 m by simp
  have sp: "list_all is_space ws"
    unfolding ws_def list_all_iff by (blast dest: set_takeWhileD)
  have idn: "list_all is_ident g'"
    unfolding g'_def list_all_iff by (blast dest: set_takeWhileD)
  from okc have "map lower kw = ''from''" "ws \<noteq> []" "g' \<noteq> []" "is_space c"
    unfolding ok_def by blast+
  with sp idn m g
  have "m = kw @ ws @ g @ [c] \<and> map lower kw = ''from'' \<and> ws \<noteq> [] \<and>
           list_all is_space ws \<and> g \<noteq> [] \<and> list_all is_ident g \<and> is_space c"
    by simp
  then show "\<exists>kw ws c. m = kw @ ws @ g @ [c] \<and> map lower kw = ''from'' \<and> ws \<noteq> [] \<and>
           list_all is_space ws \<and> g \<noteq> [] \<and> list_all is_ident g \<and> is_space c"
    by (intro exI)
qed

lemma from_pattern_match_length:
  assumes "from_pattern_match s = Some (m, g, rest)"
  shows "0 < length m \<and> length s = length m + length rest"
proof -
  from from_pattern_match_parts(2) [OF assms] obtain kw ws c where "m = kw @ ws @ g @ [c]"
    by blast
  then have "0 < length m" by simp
  moreover have "length s = length (m @ rest)"
    by (rule arg_cong [OF from_pattern_match_parts(1) [OF assms]])
  ultimately show ?thesis by simp
qed

lemma finditer_bounds:
  "(i, j, g) \<in> set (from_pattern_finditer pos s) \<Longrightarrow> pos \<le> i \<and> i < j \<and> j \<le> pos + length s"
proof (induction pos s rule: from_pattern_finditer.induct)
  case (1 pos)
  then show ?case by simp
next
  case (2 pos c cs)
  show ?case
  proof (cases "from_pattern_match (c # cs)")
    case None
    with 2(3) have "(i, j, g) \<in> set (from_pattern_finditer (Suc pos) cs)" by simp
    from "2.IH"(1) [OF None this] show ?thesis by simp
  next
    case (Some t)
    then obtain m g' rest where t: "from_pattern_match (c # cs) = Some (m, g', rest)"
      by (cases t) auto
    have len: "0 < length m" and l2: "length (c # cs) = length m + length rest"
      using from_pattern_match_length [OF t] by blast+
    have "from_pattern_finditer pos (c # cs) =
            (pos, pos + length m, g') # from_pattern_finditer (pos + length m) rest"
      using t by simp
    with 2(3) consider "i = pos \<and> j = pos + length m"
      | "(i, j, g) \<in> set (from_pattern_finditer (pos + length m) rest)" by auto
    then show ?thesis
    proof cases
      case 1
      then show ?thesis using len l2 by simp
    next
      case 2
      then have "pos + length m \<le> i \<and> i < j \<and> j \<le> pos + length m + length rest"
        using "2.IH"(2) [OF t refl refl] by simp
      then show ?thesis using l2 by simp
    qed
  qed
qed

lemma splice_skip:
  assumes "\<And>i j g. (i, j, g) \<in> set ms \<Longrightarrow> Suc pos \<le> i \<and> i < j"
  shows "splice clause pos (c # cs) ms = c # splice clause (Suc pos) cs ms"
proof (cases ms)
  case Nil
  then show ?thesis by simp
next
  case (Cons a ms')
  obtain i j g where a: "a = (i, j, g)" by (cases a)
  with assms [of i j g] Cons have "Suc pos \<le> i" "i < j" by auto
  then have "i - pos = Suc (i - Suc pos)" "j - pos = Suc (j - Suc pos)" by auto
  then show ?thesis using Cons a by simp
qed

lemma sub_splice:
  "from_pattern_sub (map Literal ''from '' @ [Group 1] @ map Literal ('' '' @ clause @ '' '')) s =
     splice clause pos s (from_pattern_finditer pos s)"
proof (induction pos s rule: from_pattern_finditer.induct)
  case (1 pos)
  then show ?case by simp
next
  case (2 pos c cs)
  let ?tpl = "map Literal ''from '' @ [Group 1] @ map Literal ('' '' @ clause @ '' '')"
  show ?case
  proof (cases "from_pattern_match (c # cs)")
    case None
    have "splice clause pos (c # cs) (from_pattern_finditer (Suc pos) cs) =
                 c # splice clause (Suc pos) cs (from_pattern_finditer (Suc pos) cs)"
      using finditer_bounds [of _ _ _ "Suc pos" cs] by (intro splice_skip) blast
    moreover have "from_pattern_sub ?tpl (c # cs) = c # from_pattern_sub ?tpl cs"
      using None by simp
    moreover have "from_pattern_finditer pos (c # cs) = from_pattern_finditer (Suc pos) cs"
      using None by simp
    ultimately show ?thesis using "2.IH"(1) [OF None] by simp
  next
    case (Some t)
    then obtain m g rest where t: "from_pattern_match (c # cs) = Some (m, g, rest)"
      by (cases t) auto
    have eq: "c # cs = m @ rest" using from_pattern_match_parts(1) [OF t] .
    have fi: "from_pattern_finditer pos (c # cs) =
            (pos, pos + length m, g) # from_pattern_finditer (pos + length m) rest"
      using t by simp
    have "from_pattern_sub ?tpl (c # cs) = expand_template ?tpl m g @ from_pattern_sub ?tpl rest"
      using t by simp
    also have "\<dots> = from_clause g clause @ splice clause (pos + length m) rest
                        (from_pattern_finditer (pos + length m) rest)"
      using "2.IH"(2) [OF t refl refl] by (simp only: expand_replacement)
    also have "\<dots> = splice clause pos (c # cs)
                 ((pos, pos + length m, g) # from_pattern_finditer (pos + length m) rest)"
      by (simp add: eq)
    finally show ?thesis
      by (simp only: fi)
  qed
qed

lemma sub_no_match:
  "from_pattern_finditer pos s = [] \<Longrightarrow> from_pattern_sub tpl s = s"
proof (induction pos s rule: from_pattern_finditer.induct)
  case (1 pos)
  then show ?case by simp
next
  case (2 pos c cs)
  show ?case
  proof (cases "from_pattern_match (c # cs)")
    case None
    with 2(3) have "from_pattern_finditer (Suc pos) cs = []" by simp
    from "2.IH"(1) [OF None this] None show ?thesis by simp
  next
    case (Some t)
    then obtain m g rest where t: "from_pattern_match (c # cs) = Some (m, g, rest)"
      by (cases t) auto
    with 2(3) show ?thesis by simp
  qed
qed

lemma load_connection: "load_global ''connection'' = Inl (NameError ''connection'')"
  by (simp add: load_global_def module_globals_def builtin_names_def)

lemma space_not_ident: "is_space c \<Longrightarrow> \<not> is_ident c"
proof -
  assume s: "is_space c"
  have dot: "code (CHR ''.'') = 46" and us: "code (CHR ''_'') = 95"
    by (simp_all add: code_def)
  have "code c \<noteq> 46" "code c \<noteq> 95" "\<not> is_word c"
    using s by (auto simp: is_space_def is_word_def is_digit_def is_ascii_letter_def)
  then show ?thesis
    using dot us by (auto simp: is_ident_def)
qed

lemma takeWhile_run:
  assumes "list_all P xs" and "\<not> P y"
  shows "takeWhile P (xs @ y # ys) = xs" and "dropWhile P (xs @ y # ys) = y # ys"
  using assms by (simp_all add: list_all_iff takeWhile_append2 dropWhile_append2)

lemma from_pattern_match_complete:
  assumes kw: "map lower kw = ''from''"
    and ws: "ws \<noteq> []" "list_all is_space ws"
    and g: "g \<noteq> []" "list_all is_ident g"
    and c: "is_space c"
  shows "from_pattern_match (kw @ ws @ g @ c # rest) = Some (kw @ ws @ g @ [c], g, rest)"
proof -
  have len: "length kw = 4"
    using arg_cong [OF kw, of length] by simp
  obtain x g' where gx: "g = x # g'" using g(1) by (cases g) auto
  have nx: "\<not> is_space x"
    using g(2) gx space_not_ident [of x] by auto
  have nc: "\<not> is_ident c"
    using c by (rule space_not_ident)
  have t: "take 4 (kw @ ws @ g @ c # rest) = kw" and d: "drop 4 (kw @ ws @ g @ c # rest) = ws @ g @ c # rest"
    using len by simp_all
  have w1: "takeWhile is_space (ws @ g @ c # rest) = ws"
    and w2: "dropWhile is_space (ws @ g @ c # rest) = g @ c # rest"
    using takeWhile_run [OF ws(2) nx, of "g' @ c # rest"] by (simp_all add: gx)
  have g1: "takeWhile is_ident (g @ c # rest) = g"
    and g2: "dropWhile is_ident (g @ c # rest) = c # rest"
    using takeWhile_run [OF g(2) nc, of rest] by simp_all
  show ?thesis
    by (simp only: from_pattern_match_def Let_def t d w1 w2 g1 g2 list.case kw ws(1) g(1) c
          simp_thms if_True not_False_eq_True)
qed

lemma finditer_match:
  "(i, j, g) \<in> set (from_pattern_finditer pos s) \<Longrightarrow>
     \<exists>m rest. from_pattern_match (drop (i - pos) s) = Some (m, g, rest) \<and> j = i + length m"
proof (induction pos s rule: from_pattern_finditer.induct)
  case (1 pos)
  then show ?case by simp
next
  case (2 pos c cs)
  show ?case
  proof (cases "from_pattern_match (c # cs)")
    case None
    with 2(3) have mem: "(i, j, g) \<in> set (from_pattern_finditer (Suc pos) cs)" by simp
    then have "Suc pos \<le> i" using finditer_bounds by blast
    then have "i - pos = Suc (i - Suc pos)" by simp
    then have "drop (i - pos) (c # cs) = drop (i - Suc pos) cs" by simp
    with "2.IH"(1) [OF None mem] show ?thesis by simp
  next
    case (Some t)
    then obtain m g' rest where t: "from_pattern_match (c # cs) = Some (m, g', rest)"
      by (cases t) auto
    have eq: "c # cs = m @ rest" using from_pattern_match_parts(1) [OF t] .
    have "from_pattern_finditer pos (c # cs) =
            (pos, pos + length m, g') # from_pattern_finditer (pos + length m) rest"
      using t by simp
    with 2(3) consider "i = pos \<and> j = pos + length m \<and> g = g'"
      | "(i, j, g) \<in> set (from_pattern_finditer (pos + length m) rest)" by auto
    then show ?thesis
    proof cases
      case 1
      then show ?thesis using t by simp
    next
      case 2
      then have "pos + length m \<le> i" using finditer_bounds by blast
      then have "drop (i - pos) (m @ rest) = drop (i - (pos + length m)) rest" by simp
      then have "drop (i - pos) (c # cs) = drop (i - (pos + length m)) rest"
        by (simp only: eq)
      with "2.IH"(2) [OF t refl refl 2] show ?thesis by simp
    qed
  qed
qed

lemma modify_plain:
  assumes "backslash \<notin> set clause"
  shows "modify_from_clause_for_timetravel query clause =
           Inr (splice clause 0 query (from_pattern_finditer 0 query))"
  by (simp only: modify_from_clause_for_timetravel_def parse_template_replacement [OF assms]
        sum.case sub_splice [of clause query 0])

declare nat_str.simps [simp del]

lemma digit_char_is_digit: "is_digit (digit_char n)"
proof -
  have "48 + n mod 10 < 256" by simp
  then have "(48 + n mod 10) mod 256 = 48 + n mod 10" by simp
  then show ?thesis
    by (simp add: is_digit_def digit_char_def code_def)
qed

lemma nat_str_digits: "list_all is_digit (nat_str n)"
proof (induction n rule: nat_str.induct)
  case (1 n)
  show ?case
  proof (cases "n < 10")
    case True
    then show ?thesis by (simp add: nat_str.simps [of n] digit_char_is_digit)
  next
    case False
    with 1 show ?thesis by (simp add: nat_str.simps [of n] digit_char_is_digit)
  qed
qed













lemma offset_clause_int:
  "offset_clause (PyInt n) =
     Inr (''AT (TIMESTAMP => DATEADD(DAY, -'' @ int_str n @ '', CURRENT_TIMESTAMP()))'')"
  by (simp add: offset_clause_def)

lemma time_travel_clause_int:
  "time_travel_clause pads_year (PyInt n) =
     Inr (''AT (TIMESTAMP => DATEADD(DAY, -'' @ int_str n @ '', CURRENT_TIMESTAMP()))'')"
  by (simp add: time_travel_clause_def)







lemma after_modify:
  "(case r of
      Inl e \<Rightarrow> (Inl e, tr)
    | Inr time_travel_query \<Rightarrow>
        (case load_global ''connection'' of
           Inl e \<Rightarrow> (Inl e, tr)
         | Inr connection \<Rightarrow> execute_query ex connection (PyStr time_travel_query) params tr)) =
   (case r of Inl e \<Rightarrow> (Inl e, tr) | Inr q \<Rightarrow> (Inl (NameError ''connection''), tr))"
  by (cases r) (simp_all add: load_connection)



lemma query_at_time_name_error:
  assumes "time_travel_clause pads_year timestamp = Inr clause" and "backslash \<notin> set clause"
  shows "query_at_time pads_year ex (PyStr q) timestamp db_name data_connection_name params
           cast_decimals tr = (Inl (NameError ''connection''), tr)"
  unfolding query_at_time_def after_modify
  by (simp add: assms(1) modify_value_def modify_plain [OF assms(2)])







lemma digit_val_digit_char: "digit_val (digit_char n) = n mod 10"
proof -
  have "(48 + n mod 10) mod 256 = 48 + n mod 10" by simp
  then show ?thesis
    by (simp add: digit_val_def digit_char_def code_def)
qed

lemma decimal_snoc: "decimal (s @ [c]) = 10 * decimal s + digit_val c"
  by (simp add: decimal_def)

lemma decimal_nat_str: "decimal (nat_str n) = n"
proof (induction n rule: nat_str.induct)
  case (1 n)
  show ?case
  proof (cases "n < 10")
    case True
    then show ?thesis
      by (simp add: nat_str.simps [of n] decimal_def digit_val_digit_char)
  next
    case False
    then have "decimal (nat_str n) = 10 * decimal (nat_str (n div 10)) + n mod 10"
      by (simp add: nat_str.simps [of n] decimal_snoc digit_val_digit_char)
    with False 1 show ?thesis by simp
  qed
qed

lemma nat_str_not_empty: "nat_str n \<noteq> []"
  by (simp add: nat_str.simps [of n])

lemma sql_integer_minus:
  "sql_integer (CHR ''-'' # nat_str n) = Some (- int n)"
  by (simp add: sql_integer_def nat_str_not_empty nat_str_digits decimal_nat_str)

section \<open>The claims\<close>

subsection \<open>The clause injector\<close>

text \<open>
  Claim C1, as amended. For every query with exactly one match of the FROM pattern, from
  position \<open>i\<close> to position \<open>j\<close> with identifier \<open>g\<close>, and every qualifier without a
  backslash, \<open>modify_from_clause_for_timetravel\<close> returns the text before the match, then
  \<open>from\<close>, a blank, \<open>g\<close>, a blank, the qualifier and a blank, then the text after the
  match. The text outside the match and the identifier are those of the input; the
  matched keyword (any spelling of \<open>from\<close> in upper or lower case) is written back in
  lower case, and the blanks before the identifier and the one after it are each written
  back as one space.
\<close>

theorem modify_single_match:
  assumes "from_pattern_finditer 0 query = [(i, j, g)]" and "backslash \<notin> set clause"
  shows "modify_from_clause_for_timetravel query clause =
           Inr (take i query @ ''from '' @ g @ '' '' @ clause @ '' '' @ drop j query)
         \<and> (\<exists>kw ws c. take (j - i) (drop i query) = kw @ ws @ g @ [c] \<and>
               map lower kw = ''from'' \<and> ws \<noteq> [] \<and> list_all is_space ws \<and>
               g \<noteq> [] \<and> list_all is_ident g \<and> is_space c)"
proof
  show "modify_from_clause_for_timetravel query clause =
           Inr (take i query @ ''from '' @ g @ '' '' @ clause @ '' '' @ drop j query)"
    using modify_plain [OF assms(2), of query] assms(1) by (simp add: from_clause_def)
  have "(i, j, g) \<in> set (from_pattern_finditer 0 query)"
    using assms(1) by simp
  from finditer_match [OF this] obtain m rest where
    m: "from_pattern_match (drop i query) = Some (m, g, rest)" and j: "j = i + length m"
    by auto
  have "take (j - i) (drop i query) = m"
    using from_pattern_match_parts(1) [OF m] j by simp
  with from_pattern_match_parts(2) [OF m]
  show "\<exists>kw ws c. take (j - i) (drop i query) = kw @ ws @ g @ [c] \<and>
               map lower kw = ''from'' \<and> ws \<noteq> [] \<and> list_all is_space ws \<and>
               g \<noteq> [] \<and> list_all is_ident g \<and> is_space c"
    by simp
qed

theorem modify_single_match_witness:
  "from_pattern_finditer 0 ''select * from T where x=1'' = [(9, 16, ''T'')]
   \<and> backslash \<notin> set ''AT (Q)''
   \<and> modify_from_clause_for_timetravel ''select * from T where x=1'' ''AT (Q)'' =
       Inr ''select * from T AT (Q) where x=1''"
proof -
  have h1: "from_pattern_finditer 0 ''select * from T where x=1'' = [(9, 16, ''T'')]"
    by code_simp
  have h2: "backslash \<notin> set ''AT (Q)''"
    by (simp add: backslash_def)
  show ?thesis
    using modify_single_match [OF h1 h2, THEN conjunct1] h1 h2 by simp
qed

text \<open>
  The claim as first stated has the keyword preserved verbatim and every other byte
  identical: an upper-case \<open>FROM\<close> comes back in lower case.
\<close>

theorem modify_single_match_counterexample:
  "from_pattern_finditer 0 ''SELECT * FROM T WHERE x=1'' = [(9, 16, ''T'')]
   \<and> modify_from_clause_for_timetravel ''SELECT * FROM T WHERE x=1'' ''AT (Q)'' =
       Inr ''SELECT * from T AT (Q) WHERE x=1''
   \<and> modify_from_clause_for_timetravel ''SELECT * FROM T WHERE x=1'' ''AT (Q)'' \<noteq>
       Inr ''SELECT * FROM T AT (Q) WHERE x=1''"
  by code_simp

text \<open>
  Claim C5, as amended. For every query in which the FROM pattern does not match and every
  qualifier without a backslash, \<open>modify_from_clause_for_timetravel\<close> returns the query
  unchanged and raises nothing.
\<close>

theorem modify_no_match:
  assumes "from_pattern_finditer 0 query = []" and "backslash \<notin> set clause"
  shows "modify_from_clause_for_timetravel query clause = Inr query"
  using modify_plain [OF assms(2), of query] assms(1) by simp

theorem modify_no_match_witness:
  "from_pattern_finditer 0 ''select 1'' = []
   \<and> backslash \<notin> set ''AT (Q)''
   \<and> modify_from_clause_for_timetravel ''select 1'' ''AT (Q)'' = Inr ''select 1''"
proof -
  have h1: "from_pattern_finditer 0 ''select 1'' = []"
    by code_simp
  have h2: "backslash \<notin> set ''AT (Q)''"
    by (simp add: backslash_def)
  show ?thesis
    using modify_no_match [OF h1 h2] h1 h2 by simp
qed

text \<open>
  The qualifier is part of the replacement template, and the template is compiled before
  the query is searched: with the qualifier \<open>\2\<close> (a reference to a group the pattern does
  not have) the call raises although nothing matches.
\<close>

theorem modify_no_match_counterexample:
  "from_pattern_finditer 0 ''select 1'' = []
   \<and> modify_from_clause_for_timetravel ''select 1'' [CHR 0x5C, CHR ''2''] = Inl TemplateError"
  by code_simp

text \<open>
  Claim C6, as amended. For every query with more than one match of the FROM pattern and
  every qualifier without a backslash, every match is rewritten to \<open>from\<close>, its own
  identifier and the same qualifier text, and the text between the matches is kept.
\<close>

theorem modify_all_matches:
  assumes "1 < length (from_pattern_finditer 0 query)" and "backslash \<notin> set clause"
  shows "modify_from_clause_for_timetravel query clause =
           Inr (splice clause 0 query (from_pattern_finditer 0 query))"
  using modify_plain [OF assms(2)] .

theorem modify_all_matches_witness:
  "1 < length (from_pattern_finditer 0 ''select * from a join (select * from b ) x'')
   \<and> backslash \<notin> set ''AT (Q)''
   \<and> modify_from_clause_for_timetravel ''select * from a join (select * from b ) x'' ''AT (Q)'' =
       Inr ''select * from a AT (Q) join (select * from b AT (Q) ) x''"
proof -
  have h0: "from_pattern_finditer 0 ''select * from a join (select * from b ) x'' =
              [(9, 16, ''a''), (31, 38, ''b'')]"
    by code_simp
  have h1: "1 < length (from_pattern_finditer 0 ''select * from a join (select * from b ) x'')"
    by (simp only: h0) simp
  have h2: "backslash \<notin> set ''AT (Q)''"
    by (simp add: backslash_def)
  have "modify_from_clause_for_timetravel ''select * from a join (select * from b ) x'' ''AT (Q)'' =
          Inr (splice ''AT (Q)'' 0 ''select * from a join (select * from b ) x''
                 [(9, 16, ''a''), (31, 38, ''b'')])"
    using modify_all_matches [OF h1 h2] by (simp only: h0)
  then have "modify_from_clause_for_timetravel ''select * from a join (select * from b ) x'' ''AT (Q)'' =
          Inr ''select * from a AT (Q) join (select * from b AT (Q) ) x''"
    by (simp add: from_clause_def)
  with h1 h2 show ?thesis
    by (intro conjI)
qed

text \<open>
  With the qualifier \<open>\1\<close> the text inserted after each identifier is that identifier
  again: it is neither the qualifier text nor the same for the two matches.
\<close>

theorem modify_all_matches_counterexample:
  "from_pattern_finditer 0 ''select * from a join (select * from b ) x'' =
     [(9, 16, ''a''), (31, 38, ''b'')]
   \<and> modify_from_clause_for_timetravel ''select * from a join (select * from b ) x''
       [CHR 0x5C, CHR ''1''] =
       Inr ''select * from a a join (select * from b b ) x''"
  by code_simp

text \<open>
  Claim C7. The query \<open>select * from T where x=1\<close> with the qualifier
  \<open>AT (TIMESTAMP => '2023-07-22 12:00:00')\<close> is rewritten to exactly
  \<open>select * from T AT (TIMESTAMP => '2023-07-22 12:00:00') where x=1\<close>.
\<close>

theorem modify_scenario:
  "modify_from_clause_for_timetravel ''select * from T where x=1''
     ''AT (TIMESTAMP => '2023-07-22 12:00:00')'' =
   Inr ''select * from T AT (TIMESTAMP => '2023-07-22 12:00:00') where x=1''"
  by code_simp

subsection \<open>The qualifier builder\<close>

text \<open>
  Claim C3, as amended. A timestamp that is neither an \<open>int\<close> nor a \<open>datetime\<close> is never
  rejected for its kind: whether it is a string or anything else, the builder formats it
  as an f-string does and puts the text between quotes as the point in time of the
  clause. The builder raises only what the formatting of the value itself raises.
\<close>

theorem unrecognized_timestamp_embedded:
  assumes "\<not> isinstance_int timestamp" and "\<not> isinstance_datetime timestamp"
  shows "time_travel_clause pads_year timestamp =
           (case format_value timestamp of
              Inl e \<Rightarrow> Inl e
            | Inr text \<Rightarrow> Inr (''AT (TIMESTAMP => '' @ [quote] @ text @ [quote] @ '')''))"
  using assms by (cases timestamp) (simp_all add: time_travel_clause_def)

theorem unrecognized_timestamp_embedded_witness:
  "\<not> isinstance_int PyNone \<and> \<not> isinstance_datetime PyNone
   \<and> time_travel_clause False PyNone = Inr ''AT (TIMESTAMP => 'None')''
   \<and> \<not> isinstance_int (PyObject (Inl (Raised ''ValueError'')) [] True)
   \<and> \<not> isinstance_datetime (PyObject (Inl (Raised ''ValueError'')) [] True)
   \<and> time_travel_clause False (PyObject (Inl (Raised ''ValueError'')) [] True) =
       Inl (Raised ''ValueError'')"
proof -
  have h1: "\<not> isinstance_int PyNone" by simp
  have h2: "\<not> isinstance_datetime PyNone" by simp
  have h3: "\<not> isinstance_int (PyObject (Inl (Raised ''ValueError'')) [] True)" by simp
  have h4: "\<not> isinstance_datetime (PyObject (Inl (Raised ''ValueError'')) [] True)" by simp
  show ?thesis
    using unrecognized_timestamp_embedded [OF h1 h2, of False]
      unrecognized_timestamp_embedded [OF h3 h4, of False]
    by (simp add: quote_def)
qed

text \<open>
  For the timestamp \<open>None\<close> the clause is built with the literal \<open>'None'\<close>; the call of
  \<open>query_at_time\<close> then fails as it does for every timestamp, on the name
  \<open>connection\<close>.
\<close>

theorem unrecognized_timestamp_counterexample:
  "time_travel_clause False PyNone = Inr ''AT (TIMESTAMP => 'None')''
   \<and> query_at_time False (\<lambda>query params. Inr ()) (PyStr ''select * from T where x=1'') PyNone
       (PyStr ''db'') (PyStr ''Analytics'') PyNone (PyBool True) [] =
       (Inl (NameError ''connection''), [])"
proof -
  have c: "time_travel_clause False PyNone = Inr ''AT (TIMESTAMP => 'None')''"
    by (simp add: time_travel_clause_def quote_def)
  have "backslash \<notin> set ''AT (TIMESTAMP => 'None')''"
    by (simp add: backslash_def)
  from query_at_time_name_error [OF c this] c show ?thesis by simp
qed




text \<open>
  Claim C9, as amended. For every integer \<open>n\<close> that is not negative (and whose decimal
  text is within the 4300 digits that newer interpreters allow when an \<open>int\<close> is made into
  text), the qualifier, in \<open>query_at_time\<close> and in \<open>query_at_offset\<close> alike, is
  \<open>AT (TIMESTAMP => DATEADD(DAY, -n, CURRENT_TIMESTAMP()))\<close> with \<open>n\<close> in decimal: the second
  argument of \<open>DATEADD\<close> is the integer literal of \<open>-n\<close>, the third is the engine's own
  current timestamp, and the builder computes no timestamp itself. For \<open>n = 7\<close> the
  qualifier contains \<open>DATEADD(DAY, -7,\<close>.
\<close>

theorem offset_qualifier:
  assumes "0 \<le> n" and "length (int_str n) \<le> 4300"
  shows "time_travel_clause pads_year (PyInt n) =
           Inr (''AT (TIMESTAMP => DATEADD(DAY, '' @ (CHR ''-'' # int_str n)
                @ '', CURRENT_TIMESTAMP()))'')
         \<and> offset_clause (PyInt n) =
           Inr (''AT (TIMESTAMP => DATEADD(DAY, '' @ (CHR ''-'' # int_str n)
                @ '', CURRENT_TIMESTAMP()))'')
         \<and> sql_integer (CHR ''-'' # int_str n) = Some (- n)"
proof -
  have "int_str n = nat_str (nat n)"
    using assms(1) by (simp add: int_str_def)
  then have "sql_integer (CHR ''-'' # int_str n) = Some (- n)"
    using sql_integer_minus [of "nat n"] assms(1) by simp
  then show ?thesis
    by (simp add: time_travel_clause_int offset_clause_int)
qed

theorem offset_qualifier_witness:
  "(0::int) \<le> 7 \<and> length (int_str 7) \<le> 4300
   \<and> time_travel_clause False (PyInt 7) =
       Inr (''AT (TIMESTAMP => '' @ ''DATEADD(DAY, -7,'' @ '' CURRENT_TIMESTAMP()))'')
   \<and> offset_clause (PyInt 7) =
       Inr (''AT (TIMESTAMP => '' @ ''DATEADD(DAY, -7,'' @ '' CURRENT_TIMESTAMP()))'')
   \<and> sql_integer ''-7'' = Some (- 7)"
proof -
  have s: "int_str 7 = ''7''"
    by code_simp
  have h1: "(0::int) \<le> 7"
    by simp
  have h2: "length (int_str 7) \<le> 4300"
    by (simp add: s)
  show ?thesis
    using offset_qualifier [OF h1 h2, of False] h2 by (simp add: s)
qed

text \<open>
  For a negative \<open>n\<close> the minus sign of the template meets the minus sign of the number:
  the second argument is \<open>--3\<close>, which is no integer literal.
\<close>

theorem offset_qualifier_counterexample:
  "time_travel_clause False (PyInt (- 3)) =
     Inr ''AT (TIMESTAMP => DATEADD(DAY, --3, CURRENT_TIMESTAMP()))''
   \<and> offset_clause (PyInt (- 3)) =
     Inr ''AT (TIMESTAMP => DATEADD(DAY, --3, CURRENT_TIMESTAMP()))''
   \<and> sql_integer ''--3'' = None"
proof -
  have s: "int_str (- 3) = ''-3''"
    by code_simp
  have "\<not> is_digit (CHR ''-'')"
    by (simp add: is_digit_def code_def)
  then have n: "sql_integer ''--3'' = None"
    by (simp add: sql_integer_def)
  show ?thesis
    by (simp add: time_travel_clause_int offset_clause_int s n)
qed

subsection \<open>The orchestration\<close>




text \<open>
  Claim C2 says that \<open>compare_timetravel\<close> dispatches the query twice and returns the
  pair of tables. The function as written, called with the query of the scenario, seven
  days and an executor that answers every query, raises \<open>NameError\<close> for \<open>connection\<close>
  with no dispatch made.
\<close>

theorem compare_timetravel_raises:
  "compare_timetravel (\<lambda>query params. Inr (query, params))
     (PyStr ''select * from T where x=1'') (PyInt 7) PyNone (PyStr ''Analytics'') PyNone
     (PyBool True) [] = (Inl (NameError ''connection''), [])"
  by (simp add: compare_timetravel_def load_connection)

text \<open>
  Claim C10 says that an error of the executor reaches the caller of
  \<open>compare_timetravel\<close> unchanged. The function as written, with an executor that fails on
  every dispatch, never reaches the executor: what the caller gets is the \<open>NameError\<close> for
  \<open>connection\<close>.
\<close>

theorem compare_timetravel_masks_executor_error:
  "compare_timetravel (\<lambda>query params. Inl (ExecutionError ''remote failure'') :: error + unit)
     (PyStr ''select * from T where x=1'') (PyInt 7) PyNone (PyStr ''Analytics'') PyNone
     (PyBool True) [] = (Inl (NameError ''connection''), [])
   \<and> NameError ''connection'' \<noteq> ExecutionError ''remote failure''"
  by (simp add: compare_timetravel_def load_connection)

end
